theory Spec2Isabelle
  imports Main
begin

section \<open>The time bank service of backend/main.py\<close>

text \<open>
  The program is a set of HTTP handlers over one SQLite file with three tables
  (\<open>users\<close>, \<open>services\<close>, \<open>transactions\<close>). Every handler opens a
  connection of its own (\<open>get_db\<close>), runs its SQL statements through it and, when it
  writes, calls \<open>conn.commit()\<close> once.

  Conventions of the embedding:
  \<^item> Python's \<open>int\<close> is HOL \<open>int\<close> (unbounded); SQLite's \<open>INTEGER\<close> holds signed
    64-bit values only, so binding a Python \<open>int\<close> outside that range raises
    \<open>OverflowError\<close>, and integer arithmetic that leaves the range gives a \<open>REAL\<close>;
  \<^item> \<open>str | None\<close> is \<open>string option\<close>, \<open>int | None\<close> is \<open>int option\<close>;
  \<^item> a table is the list of its rows in insertion order;
  \<^item> a \<open>raise\<close> is an \<open>Inl\<close> result;
  \<^item> a handler maps the database file before the call to its result and the database
    file after the call.
\<close>

subsection \<open>Request and response models (pydantic)\<close>

record User =
  user_id :: "int option"
  user_name :: string
  user_minutes_balance :: int

record Service =
  service_id :: "int option"
  service_title :: string
  service_description :: "string option"
  service_provider_user_id :: int
  service_duration_minutes :: int

record Transaction =
  tx_id :: "int option"
  tx_provider_user_id :: int
  tx_recipient_user_id :: int
  tx_minutes :: int
  tx_description :: "string option"

datatype error =
    HTTPException int string  \<comment> \<open>status code and detail\<close>
  | OverflowError             \<comment> \<open>Python int too large to convert to SQLite INTEGER\<close>
  | Sqlite3_Error             \<comment> \<open>an exception of the sqlite3 module\<close>

subsection \<open>SQLite numbers\<close>

text \<open>The values of a signed 64-bit integer.\<close>

definition in_int64 :: "int \<Rightarrow> bool" where
  "in_int64 i = (- (2 ^ 63) \<le> i \<and> i \<le> 2 ^ 63 - 1)"

text \<open>
  sqlite3 converts every Python \<open>int\<close> among the parameters of a statement to a 64-bit
  \<open>INTEGER\<close> before the statement runs, and raises \<open>OverflowError\<close> when one does
  not fit. \<open>bind ps\<close> says that the parameters \<open>ps\<close> all fit.
\<close>

definition bind :: "int list \<Rightarrow> bool" where
  "bind ps = list_all in_int64 ps"

text \<open>
  A number stored in a column is an \<open>INTEGER\<close> or a \<open>REAL\<close> (an IEEE double). Every
  double that arises here has an integer value (it comes from 64-bit integers by
  conversion, addition and subtraction), so \<open>Real r\<close> carries that value \<open>r\<close>.
  A statement changes a balance by at most \<open>2^63\<close>, which a double of large magnitude
  absorbs, so balances stay far below the largest double: no infinity and no NaN
  arises.
\<close>

datatype number = Integer int | Real int

fun number_value :: "number \<Rightarrow> int" where
  "number_value (Integer i) = i"
| "number_value (Real r) = r"

text \<open>
  Rounding an integer to the nearest double (53 significant bits, ties to the even
  significand). \<open>ulp a u\<close> doubles \<open>u\<close> until \<open>a div u\<close> has at most 53 bits;
  \<open>round_at u a\<close> rounds \<open>a\<close> to a multiple of \<open>u\<close>.
\<close>

function ulp :: "int \<Rightarrow> int \<Rightarrow> int" where
  "ulp a u = (if a div u < 2 ^ 53 \<or> u \<le> 0 then u else ulp a (2 * u))"
  by pat_completeness auto
termination
proof (relation "measure (\<lambda>(a, u). nat (a div u))")
  show "wf (measure (\<lambda>(a, u). nat (a div u)))" by simp
next
  fix a u :: int
  assume "\<not> (a div u < 2 ^ 53 \<or> u \<le> 0)"
  then have u: "0 < u" and big: "(2::int) ^ 53 \<le> a div u" by simp_all
  have "a div (2 * u) = a div u div 2"
    using u by (simp add: zdiv_zmult2_eq mult.commute)
  moreover have "0 < a div u" using big by (rule less_le_trans [rotated]) simp
  ultimately show "((a, 2 * u), (a, u)) \<in> measure (\<lambda>(a, u). nat (a div u))"
    by simp
qed

declare ulp.simps [simp del]

definition round_at :: "int \<Rightarrow> int \<Rightarrow> int" where
  "round_at u a =
     (let q = a div u;
          r = a mod u
      in (if u < 2 * r \<or> (2 * r = u \<and> odd q) then q + 1 else q) * u)"

definition to_double :: "int \<Rightarrow> int" where
  "to_double n = sgn n * round_at (ulp \<bar>n\<bar> 1) \<bar>n\<bar>"

text \<open>
  \<open>minutes_balance + ?\<close> and \<open>minutes_balance - ?\<close> with an \<open>INTEGER\<close> parameter: integer
  arithmetic while the result fits 64 bits, otherwise (and for a \<open>REAL\<close> operand) the
  operands are converted to doubles and the result is a \<open>REAL\<close>.
\<close>

fun sql_add :: "number \<Rightarrow> int \<Rightarrow> number" where
  "sql_add (Integer i) m =
     (if in_int64 (i + m) then Integer (i + m) else Real (to_double (to_double i + to_double m)))"
| "sql_add (Real r) m = Real (to_double (r + to_double m))"

fun sql_sub :: "number \<Rightarrow> int \<Rightarrow> number" where
  "sql_sub (Integer i) m =
     (if in_int64 (i - m) then Integer (i - m) else Real (to_double (to_double i - to_double m)))"
| "sql_sub (Real r) m = Real (to_double (r - to_double m))"

text \<open>
  Storing into a column of \<open>INTEGER\<close> affinity: a \<open>REAL\<close> with an integer value
  strictly between the smallest and the largest 64-bit integer is stored as that
  \<open>INTEGER\<close>.
\<close>

fun int_affinity :: "number \<Rightarrow> number" where
  "int_affinity (Integer i) = Integer i"
| "int_affinity (Real r) = (if - (2 ^ 63) < r \<and> r < 2 ^ 63 - 1 then Integer r else Real r)"

subsection \<open>Tables (init\_db)\<close>

text \<open>
  The rows of the three tables, with the columns of the \<open>CREATE TABLE\<close> statements.
  The handlers only ever store bound 64-bit integers in the integer columns; the one
  column they compute on in SQL is \<open>minutes_balance\<close>, which can so come to hold a
  \<open>REAL\<close>.
\<close>

record users_row =
  u_id :: int
  u_name :: string
  u_minutes_balance :: number

record services_row =
  s_id :: int
  s_title :: string
  s_description :: "string option"
  s_provider_user_id :: int
  s_duration_minutes :: int

record transactions_row =
  t_id :: int
  t_provider_user_id :: int
  t_recipient_user_id :: int
  t_minutes :: int
  t_description :: "string option"

text \<open>
  Each table is \<open>INTEGER PRIMARY KEY AUTOINCREMENT\<close>: next to its rows the database
  keeps the largest row id the table has ever held (SQLite's \<open>sqlite_sequence\<close>).
\<close>

record database =
  users :: "users_row list"
  users_seq :: int
  services :: "services_row list"
  services_seq :: int
  transactions :: "transactions_row list"
  transactions_seq :: int

definition empty_database :: database where
  "empty_database =
     \<lparr>users = [], users_seq = 0, services = [], services_seq = 0,
      transactions = [], transactions_seq = 0\<rparr>"

text \<open>
  \<open>init_db\<close> runs at startup: \<open>CREATE TABLE IF NOT EXISTS\<close> creates the three
  tables in a fresh file (\<open>None\<close>) and leaves existing tables as they are.
\<close>

definition init_db :: "database option \<Rightarrow> database" where
  "init_db file = (case file of None \<Rightarrow> empty_database | Some db \<Rightarrow> db)"

text \<open>
  The row id an AUTOINCREMENT table gives to an inserted row. When that id would pass
  the largest 64-bit integer the INSERT fails (\<open>database or disk is full\<close>).
\<close>

definition new_rowid :: "int \<Rightarrow> int list \<Rightarrow> int" where
  "new_rowid seq ids = max seq (fold max ids 0) + 1"

subsection \<open>Connections and SQL statements\<close>

text \<open>
  A connection (with its cursor) sees the committed file plus its own uncommitted
  writes. Other connections, and so every later request, see \<open>committed\<close> only.
  \<open>commit\<close> publishes the writes; a connection dropped without \<open>commit\<close>
  (an exception leaving the handler) loses them.
\<close>

record connection =
  committed :: database
  working :: database
  lastrowid :: "int option"

definition get_db :: "database \<Rightarrow> connection" where
  "get_db db = \<lparr>committed = db, working = db, lastrowid = None\<rparr>"

definition commit :: "connection \<Rightarrow> connection" where
  "commit conn = conn\<lparr>committed := working conn\<rparr>"

text \<open>\<open>SELECT * FROM users WHERE id=?\<close> with \<open>fetchone()\<close>.\<close>

definition select_user :: "database \<Rightarrow> int \<Rightarrow> users_row option" where
  "select_user db i = find (\<lambda>u. u_id u = i) (users db)"

text \<open>\<open>UPDATE users SET ... WHERE id=?\<close>, the assignment given as a function on rows.\<close>

definition update_rows :: "(users_row \<Rightarrow> users_row) \<Rightarrow> int \<Rightarrow> users_row list \<Rightarrow> users_row list" where
  "update_rows f i rows = map (\<lambda>u. if u_id u = i then f u else u) rows"

definition update_users :: "(users_row \<Rightarrow> users_row) \<Rightarrow> int \<Rightarrow> connection \<Rightarrow> connection" where
  "update_users f i conn =
     conn\<lparr>working := (working conn)\<lparr>users := update_rows f i (users (working conn))\<rparr>\<rparr>"

text \<open>\<open>DELETE FROM users WHERE id=?\<close>.\<close>

definition delete_users :: "int \<Rightarrow> connection \<Rightarrow> connection" where
  "delete_users i conn =
     conn\<lparr>working := (working conn)\<lparr>users := filter (\<lambda>u. u_id u \<noteq> i) (users (working conn))\<rparr>\<rparr>"

text \<open>\<open>INSERT INTO users (name, minutes_balance) VALUES (?, ?)\<close>.\<close>

definition insert_user :: "string \<Rightarrow> int \<Rightarrow> connection \<Rightarrow> error + connection" where
  "insert_user n b conn =
     (let w = working conn;
          i = new_rowid (users_seq w) (map u_id (users w))
      in if \<not> in_int64 i then Inl Sqlite3_Error
         else Inr (conn\<lparr>working := w\<lparr>users := users w @
                                      [\<lparr>u_id = i, u_name = n, u_minutes_balance = Integer b\<rparr>],
                                    users_seq := i\<rparr>,
                        lastrowid := Some i\<rparr>))"

text \<open>\<open>INSERT INTO services (title, description, provider_user_id, duration_minutes)\<close>.\<close>

definition insert_service ::
  "string \<Rightarrow> string option \<Rightarrow> int \<Rightarrow> int \<Rightarrow> connection \<Rightarrow> error + connection" where
  "insert_service t d p m conn =
     (let w = working conn;
          i = new_rowid (services_seq w) (map s_id (services w))
      in if \<not> in_int64 i then Inl Sqlite3_Error
         else Inr (conn\<lparr>working := w\<lparr>services := services w @
                                      [\<lparr>s_id = i, s_title = t, s_description = d,
                                        s_provider_user_id = p, s_duration_minutes = m\<rparr>],
                                    services_seq := i\<rparr>,
                        lastrowid := Some i\<rparr>))"

text \<open>\<open>INSERT INTO transactions (provider_user_id, recipient_user_id, minutes, description)\<close>.\<close>

definition insert_transaction ::
  "int \<Rightarrow> int \<Rightarrow> int \<Rightarrow> string option \<Rightarrow> connection \<Rightarrow> error + connection" where
  "insert_transaction p r m d conn =
     (let w = working conn;
          i = new_rowid (transactions_seq w) (map t_id (transactions w))
      in if \<not> in_int64 i then Inl Sqlite3_Error
         else Inr (conn\<lparr>working := w\<lparr>transactions := transactions w @
                                      [\<lparr>t_id = i, t_provider_user_id = p,
                                        t_recipient_user_id = r,
                                        t_minutes = m, t_description = d\<rparr>],
                                    transactions_seq := i\<rparr>,
                        lastrowid := Some i\<rparr>))"

subsection \<open>CRUD for users\<close>

text \<open>
  Every \<open>execute\<close> first binds its parameters (\<open>bind\<close>); when that or the statement
  raises, the handler is left with nothing committed. \<open>list_users\<close> and \<open>get_user\<close>
  return the rows as dictionaries.
\<close>

definition create_user :: "database \<Rightarrow> User \<Rightarrow> (error + User) \<times> database" where
  "create_user db user =
     (let conn = get_db db in
      if \<not> bind [user_minutes_balance user] then (Inl OverflowError, committed conn)
      else case insert_user (user_name user) (user_minutes_balance user) conn of
             Inl e \<Rightarrow> (Inl e, committed conn)
           | Inr conn \<Rightarrow>
               let conn = commit conn
               in (Inr (user\<lparr>user_id := lastrowid conn\<rparr>), committed conn))"

definition list_users :: "database \<Rightarrow> users_row list \<times> database" where
  "list_users db = (let conn = get_db db in (users (working conn), committed conn))"

definition get_user :: "database \<Rightarrow> int \<Rightarrow> (error + users_row) \<times> database" where
  "get_user db i =
     (let conn = get_db db in
      if \<not> bind [i] then (Inl OverflowError, committed conn)
      else case select_user (working conn) i of
             None \<Rightarrow> (Inl (HTTPException 404 ''User not found''), committed conn)
           | Some u \<Rightarrow> (Inr u, committed conn))"

definition update_user :: "database \<Rightarrow> int \<Rightarrow> User \<Rightarrow> (error + User) \<times> database" where
  "update_user db i user =
     (let conn = get_db db in
      if \<not> bind [user_minutes_balance user, i] then (Inl OverflowError, committed conn)
      else
        let conn = update_users
                     (\<lambda>u. u\<lparr>u_name := user_name user,
                             u_minutes_balance := Integer (user_minutes_balance user)\<rparr>)
                     i conn;
            conn = commit conn
        in (Inr (user\<lparr>user_id := Some i\<rparr>), committed conn))"

definition delete_user :: "database \<Rightarrow> int \<Rightarrow> (error + string) \<times> database" where
  "delete_user db i =
     (let conn = get_db db in
      if \<not> bind [i] then (Inl OverflowError, committed conn)
      else
        let conn = delete_users i conn;
            conn = commit conn
        in (Inr ''User deleted'', committed conn))"

subsection \<open>CRUD for services\<close>

definition create_service :: "database \<Rightarrow> Service \<Rightarrow> (error + Service) \<times> database" where
  "create_service db service =
     (let conn = get_db db in
      if \<not> bind [service_provider_user_id service, service_duration_minutes service]
      then (Inl OverflowError, committed conn)
      else case insert_service (service_title service) (service_description service)
                  (service_provider_user_id service) (service_duration_minutes service) conn of
             Inl e \<Rightarrow> (Inl e, committed conn)
           | Inr conn \<Rightarrow>
               let conn = commit conn
               in (Inr (service\<lparr>service_id := lastrowid conn\<rparr>), committed conn))"

definition list_services :: "database \<Rightarrow> services_row list \<times> database" where
  "list_services db = (let conn = get_db db in (services (working conn), committed conn))"

subsection \<open>Transaction logic\<close>

text \<open>
  \<open>create_transaction\<close>, statement by statement. Each \<open>execute\<close> binds its
  parameters first. Every \<open>raise\<close> leaves the handler before \<open>commit\<close>; the database
  file after it is what was committed. The balance read from the recipient's row is an
  \<open>int\<close> or a \<open>float\<close>, which Python compares with \<open>tx.minutes\<close> by value.
\<close>

definition create_transaction :: "database \<Rightarrow> Transaction \<Rightarrow> (error + Transaction) \<times> database" where
  "create_transaction db tx =
     (let conn = get_db db in
      if \<not> bind [tx_provider_user_id tx] then (Inl OverflowError, committed conn) else
      let provider = select_user (working conn) (tx_provider_user_id tx) in
      if \<not> bind [tx_recipient_user_id tx] then (Inl OverflowError, committed conn) else
      let recipient = select_user (working conn) (tx_recipient_user_id tx)
      in case provider of
           None \<Rightarrow> (Inl (HTTPException 404 ''Invalid provider or recipient''), committed conn)
         | Some p \<Rightarrow>
        (case recipient of
           None \<Rightarrow> (Inl (HTTPException 404 ''Invalid provider or recipient''), committed conn)
         | Some r \<Rightarrow>
             if number_value (u_minutes_balance r) < tx_minutes tx
             then (Inl (HTTPException 400 ''Recipient does not have enough minutes to pay''),
                   committed conn)
             else
               if \<not> bind [tx_minutes tx, tx_provider_user_id tx]
               then (Inl OverflowError, committed conn) else
               let conn = update_users
                            (\<lambda>u. u\<lparr>u_minutes_balance :=
                                     int_affinity (sql_add (u_minutes_balance u) (tx_minutes tx))\<rparr>)
                            (tx_provider_user_id tx) conn in
               if \<not> bind [tx_minutes tx, tx_recipient_user_id tx]
               then (Inl OverflowError, committed conn) else
               let conn = update_users
                            (\<lambda>u. u\<lparr>u_minutes_balance :=
                                     int_affinity (sql_sub (u_minutes_balance u) (tx_minutes tx))\<rparr>)
                            (tx_recipient_user_id tx) conn in
               if \<not> bind [tx_provider_user_id tx, tx_recipient_user_id tx, tx_minutes tx]
               then (Inl OverflowError, committed conn) else
               case insert_transaction (tx_provider_user_id tx) (tx_recipient_user_id tx)
                      (tx_minutes tx) (tx_description tx) conn of
                 Inl e \<Rightarrow> (Inl e, committed conn)
               | Inr conn \<Rightarrow>
                   let conn = commit conn
                   in (Inr (tx\<lparr>tx_id := lastrowid conn\<rparr>), committed conn)))"



subsection \<open>The routes\<close>

text \<open>
  One constructor per route of the application (and one for the startup hook), and the
  database file each leaves behind.
\<close>

datatype request =
    Startup
  | Post_users User
  | Get_users
  | Get_users_id int
  | Put_users_id int User
  | Delete_users_id int
  | Post_services Service
  | Get_services
  | Post_transactions Transaction

fun handle :: "request \<Rightarrow> database \<Rightarrow> database" where
  "handle Startup db = init_db (Some db)"
| "handle (Post_users user) db = snd (create_user db user)"
| "handle Get_users db = snd (list_users db)"
| "handle (Get_users_id i) db = snd (get_user db i)"
| "handle (Put_users_id i user) db = snd (update_user db i user)"
| "handle (Delete_users_id i) db = snd (delete_user db i)"
| "handle (Post_services service) db = snd (create_service db service)"
| "handle Get_services db = snd (list_services db)"
| "handle (Post_transactions tx) db = snd (create_transaction db tx)"

subsection \<open>Notions used by the properties\<close>

text \<open>The sum of all account balances.\<close>

definition total_minutes :: "database \<Rightarrow> int" where
  "total_minutes db = sum_list (map (\<lambda>u. number_value (u_minutes_balance u)) (users db))"

text \<open>
  What SQLite guarantees of the rows of \<open>users\<close>: the primary key is a 64-bit row id
  that no two rows share, and an \<open>INTEGER\<close> balance is a 64-bit integer.
\<close>

fun stored :: "number \<Rightarrow> bool" where
  "stored (Integer i) = in_int64 i"
| "stored (Real r) = True"

definition users_ok :: "database \<Rightarrow> bool" where
  "users_ok db =
     (distinct (map u_id (users db)) \<and>
      list_all (\<lambda>u. in_int64 (u_id u) \<and> stored (u_minutes_balance u)) (users db))"

text \<open>The row a successful transfer appends, given its row id.\<close>

definition row_of_tx :: "int \<Rightarrow> Transaction \<Rightarrow> transactions_row" where
  "row_of_tx i tx =
     \<lparr>t_id = i, t_provider_user_id = tx_provider_user_id tx,
      t_recipient_user_id = tx_recipient_user_id tx,
      t_minutes = tx_minutes tx, t_description = tx_description tx\<rparr>"

subsection \<open>The scenario of the specification\<close>

text \<open>Alice (id 1) holds 0 minutes and Bob (id 2) holds 100; no transfer has happened yet.\<close>

definition scenario_db :: database where
  "scenario_db =
     \<lparr>users = [\<lparr>u_id = 1, u_name = ''Alice'', u_minutes_balance = Integer 0\<rparr>,
               \<lparr>u_id = 2, u_name = ''Bob'', u_minutes_balance = Integer 100\<rparr>],
      users_seq = 2, services = [], services_seq = 0,
      transactions = [], transactions_seq = 0\<rparr>"

text \<open>The body of a \<open>POST /transactions\<close> without id and description.\<close>

definition transfer_req :: "int \<Rightarrow> int \<Rightarrow> int \<Rightarrow> Transaction" where
  "transfer_req p r m =
     \<lparr>tx_id = None, tx_provider_user_id = p, tx_recipient_user_id = r, tx_minutes = m,
      tx_description = None\<rparr>"

text \<open>The scenario with a third account and a service.\<close>

definition three_db :: database where
  "three_db =
     \<lparr>users = [\<lparr>u_id = 1, u_name = ''Alice'', u_minutes_balance = Integer 0\<rparr>,
               \<lparr>u_id = 2, u_name = ''Bob'', u_minutes_balance = Integer 100\<rparr>,
               \<lparr>u_id = 3, u_name = ''Carol'', u_minutes_balance = Integer 7\<rparr>],
      users_seq = 3,
      services = [\<lparr>s_id = 1, s_title = ''Gardening'', s_description = None,
                   s_provider_user_id = 1, s_duration_minutes = 60\<rparr>],
      services_seq = 1,
      transactions = [], transactions_seq = 0\<rparr>"

text \<open>
  The scenario with Alice at the largest 64-bit balance, \<open>2^63 - 1\<close> (a balance
  \<open>POST /users\<close> accepts).
\<close>

definition rich_db :: database where
  "rich_db =
     \<lparr>users = [\<lparr>u_id = 1, u_name = ''Alice'', u_minutes_balance = Integer 9223372036854775807\<rparr>,
               \<lparr>u_id = 2, u_name = ''Bob'', u_minutes_balance = Integer 100\<rparr>],
      users_seq = 2, services = [], services_seq = 0,
      transactions = [], transactions_seq = 0\<rparr>"

section \<open>Basic facts\<close>

lemmas num_eval = to_double_def round_at_def ulp.simps Let_def in_int64_def

lemmas eval_defs =
  scenario_db_def rich_db_def three_db_def transfer_req_def create_transaction_def get_db_def
  commit_def select_user_def update_users_def update_rows_def insert_transaction_def
  new_rowid_def row_of_tx_def bind_def num_eval

subsection \<open>Row ids\<close>

lemma le_fold_max: "(a::int) \<le> fold max ids a"
  by (induction ids arbitrary: a) (auto intro: order_trans [OF max.cobounded2])

lemma mem_le_fold_max: "x \<in> set ids \<Longrightarrow> (x::int) \<le> fold max ids a"
proof (induction ids arbitrary: a)
  case Nil
  then show ?case by simp
next
  case (Cons y ys)
  show ?case
  proof (cases "x = y")
    case True
    have "y \<le> max y a" by simp
    also have "\<dots> \<le> fold max ys (max y a)" by (rule le_fold_max)
    finally show ?thesis using True by simp
  next
    case False
    with Cons.prems have "x \<in> set ys" by simp
    then show ?thesis using Cons.IH by simp
  qed
qed

lemma new_rowid_fresh: "new_rowid seq ids \<notin> set ids"
proof
  assume "new_rowid seq ids \<in> set ids"
  then have "new_rowid seq ids \<le> fold max ids 0" by (rule mem_le_fold_max)
  then show False by (simp add: new_rowid_def)
qed

lemma new_rowid_pos: "0 < new_rowid seq ids"
  using le_fold_max [of 0 ids] by (simp add: new_rowid_def)

lemma new_rowid_snoc:
  assumes "n = new_rowid seq ids"
  shows "new_rowid n (ids @ [n]) = n + 1"
proof -
  have "fold max ids 0 < n" using assms by (simp add: new_rowid_def)
  then show ?thesis by (simp add: new_rowid_def)
qed

subsection \<open>Arithmetic inside the 64-bit range\<close>

lemma sql_add_in_range:
  "in_int64 (a + m) \<Longrightarrow> int_affinity (sql_add (Integer a) m) = Integer (a + m)"
  by simp

lemma sql_sub_in_range:
  "in_int64 (a - m) \<Longrightarrow> int_affinity (sql_sub (Integer a) m) = Integer (a - m)"
  by simp

lemma stored_int_affinity: "stored (int_affinity (Real r))"
  by (simp add: in_int64_def)

lemma stored_sql_add: "stored (int_affinity (sql_add v m))"
  by (cases v) (simp_all add: in_int64_def)

lemma stored_sql_sub: "stored (int_affinity (sql_sub v m))"
  by (cases v) (simp_all add: in_int64_def)

subsection \<open>UPDATE on the rows of users\<close>

lemma update_rows_Nil: "update_rows f i [] = []"
  by (simp add: update_rows_def)

lemma update_rows_Cons:
  "update_rows f i (x # xs) = (if u_id x = i then f x else x) # update_rows f i xs"
  by (simp add: update_rows_def)

lemma find_update_rows:
  assumes "\<And>u. u_id (f u) = u_id u"
  shows "find (\<lambda>u. u_id u = i) (update_rows f j rows) =
         map_option (\<lambda>u. if i = j then f u else u) (find (\<lambda>u. u_id u = i) rows)"
  using assms by (induction rows) (auto simp: update_rows_def)

lemma map_u_id_update_rows:
  assumes "\<And>u. u_id (f u) = u_id u"
  shows "map u_id (update_rows f j rows) = map u_id rows"
  using assms by (induction rows) (auto simp: update_rows_def)

lemma update_rows_absent:
  "i \<notin> u_id ` set rows \<Longrightarrow> update_rows f i rows = rows"
  by (induction rows) (auto simp: update_rows_def)

lemma update_rows_found:
  assumes "distinct (map u_id rows)" and "find (\<lambda>u. u_id u = i) rows = Some a"
    and "f a = a"
  shows "update_rows f i rows = rows"
  using assms
proof (induction rows)
  case Nil
  then show ?case by simp
next
  case (Cons x xs)
  show ?case
  proof (cases "u_id x = i")
    case True
    with Cons.prems have "a = x" and "i \<notin> u_id ` set xs" by auto
    then show ?thesis using True Cons.prems(3) by (simp add: update_rows_Cons update_rows_absent)
  next
    case False
    with Cons.prems Cons.IH show ?thesis by (simp add: update_rows_Cons)
  qed
qed


lemma sum_update_rows:
  assumes "distinct (map u_id rows)" and "find (\<lambda>u. u_id u = i) rows = Some a"
  shows "sum_list (map (\<lambda>u. number_value (u_minutes_balance u)) (update_rows f i rows)) =
         sum_list (map (\<lambda>u. number_value (u_minutes_balance u)) rows)
           - number_value (u_minutes_balance a) + number_value (u_minutes_balance (f a))"
  using assms
proof (induction rows)
  case Nil
  then show ?case by simp
next
  case (Cons x xs)
  show ?case
  proof (cases "u_id x = i")
    case True
    with Cons.prems have "a = x" and "i \<notin> u_id ` set xs" by auto
    then show ?thesis using True by (simp add: update_rows_Cons update_rows_absent)
  next
    case False
    with Cons.prems Cons.IH show ?thesis by (simp add: update_rows_Cons)
  qed
qed

lemma filter_update_rows:
  assumes "\<And>u. u_id (f u) = u_id u" and "i \<in> S"
  shows "filter (\<lambda>u. u_id u \<notin> S) (update_rows f i rows) = filter (\<lambda>u. u_id u \<notin> S) rows"
  using assms by (induction rows) (auto simp: update_rows_def)

lemma list_all_update_rows:
  assumes "list_all P rows" and "\<And>u. P u \<Longrightarrow> P (f u)"
  shows "list_all P (update_rows f i rows)"
  using assms by (induction rows) (auto simp: update_rows_def)

subsection \<open>The rows SQLite can hold\<close>

lemma users_ok_select:
  assumes "users_ok db" and "select_user db i = Some u"
  shows "in_int64 i" and "stored (u_minutes_balance u)" and "u_id u = i"
proof -
  from assms(2) have "u \<in> set (users db)" and id: "u_id u = i"
    by (auto simp: select_user_def find_Some_iff)
  with assms(1) show "in_int64 i" and "stored (u_minutes_balance u)"
    by (auto simp: users_ok_def list_all_iff)
  show "u_id u = i" by (rule id)
qed

subsection \<open>The outcomes of create\_transaction\<close>

lemma create_transaction_overflow_ids:
  "\<not> in_int64 (tx_provider_user_id tx) \<or> \<not> in_int64 (tx_recipient_user_id tx) \<Longrightarrow>
   create_transaction db tx = (Inl OverflowError, db)"
  by (auto simp: create_transaction_def get_db_def Let_def bind_def)

lemma create_transaction_not_found:
  "in_int64 (tx_provider_user_id tx) \<Longrightarrow> in_int64 (tx_recipient_user_id tx) \<Longrightarrow>
   select_user db (tx_provider_user_id tx) = None \<or>
   select_user db (tx_recipient_user_id tx) = None \<Longrightarrow>
   create_transaction db tx = (Inl (HTTPException 404 ''Invalid provider or recipient''), db)"
  by (auto simp: create_transaction_def get_db_def Let_def bind_def split: option.splits)

lemma create_transaction_insufficient:
  "in_int64 (tx_provider_user_id tx) \<Longrightarrow> in_int64 (tx_recipient_user_id tx) \<Longrightarrow>
   select_user db (tx_provider_user_id tx) = Some A \<Longrightarrow>
   select_user db (tx_recipient_user_id tx) = Some B \<Longrightarrow>
   number_value (u_minutes_balance B) < tx_minutes tx \<Longrightarrow>
   create_transaction db tx =
     (Inl (HTTPException 400 ''Recipient does not have enough minutes to pay''), db)"
  by (simp add: create_transaction_def get_db_def Let_def bind_def)

lemma create_transaction_overflow_minutes:
  "in_int64 (tx_provider_user_id tx) \<Longrightarrow> in_int64 (tx_recipient_user_id tx) \<Longrightarrow>
   select_user db (tx_provider_user_id tx) = Some A \<Longrightarrow>
   select_user db (tx_recipient_user_id tx) = Some B \<Longrightarrow>
   tx_minutes tx \<le> number_value (u_minutes_balance B) \<Longrightarrow>
   \<not> in_int64 (tx_minutes tx) \<Longrightarrow>
   create_transaction db tx = (Inl OverflowError, db)"
  by (simp add: create_transaction_def get_db_def Let_def bind_def)

lemma create_transaction_full:
  "in_int64 (tx_provider_user_id tx) \<Longrightarrow> in_int64 (tx_recipient_user_id tx) \<Longrightarrow>
   select_user db (tx_provider_user_id tx) = Some A \<Longrightarrow>
   select_user db (tx_recipient_user_id tx) = Some B \<Longrightarrow>
   tx_minutes tx \<le> number_value (u_minutes_balance B) \<Longrightarrow>
   in_int64 (tx_minutes tx) \<Longrightarrow>
   \<not> in_int64 (new_rowid (transactions_seq db) (map t_id (transactions db))) \<Longrightarrow>
   create_transaction db tx = (Inl Sqlite3_Error, db)"
  by (simp add: create_transaction_def get_db_def Let_def bind_def update_users_def
      insert_transaction_def)

lemma create_transaction_success:
  "in_int64 (tx_provider_user_id tx) \<Longrightarrow> in_int64 (tx_recipient_user_id tx) \<Longrightarrow>
   select_user db (tx_provider_user_id tx) = Some A \<Longrightarrow>
   select_user db (tx_recipient_user_id tx) = Some B \<Longrightarrow>
   tx_minutes tx \<le> number_value (u_minutes_balance B) \<Longrightarrow>
   in_int64 (tx_minutes tx) \<Longrightarrow>
   n = new_rowid (transactions_seq db) (map t_id (transactions db)) \<Longrightarrow>
   in_int64 n \<Longrightarrow>
   create_transaction db tx =
     (Inr (tx\<lparr>tx_id := Some n\<rparr>),
      db\<lparr>users := update_rows
                  (\<lambda>u. u\<lparr>u_minutes_balance :=
                           int_affinity (sql_sub (u_minutes_balance u) (tx_minutes tx))\<rparr>)
                  (tx_recipient_user_id tx)
                  (update_rows
                     (\<lambda>u. u\<lparr>u_minutes_balance :=
                              int_affinity (sql_add (u_minutes_balance u) (tx_minutes tx))\<rparr>)
                     (tx_provider_user_id tx) (users db)),
         transactions := transactions db @ [row_of_tx n tx],
         transactions_seq := n\<rparr>)"
  by (simp add: create_transaction_def get_db_def Let_def bind_def update_users_def
      insert_transaction_def commit_def row_of_tx_def)

lemma create_transaction_cases [case_names failure success]:
  obtains (failure) e where "create_transaction db tx = (Inl e, db)"
  | (success) A B where "in_int64 (tx_provider_user_id tx)"
      and "in_int64 (tx_recipient_user_id tx)"
      and "select_user db (tx_provider_user_id tx) = Some A"
      and "select_user db (tx_recipient_user_id tx) = Some B"
      and "tx_minutes tx \<le> number_value (u_minutes_balance B)"
      and "in_int64 (tx_minutes tx)"
      and "in_int64 (new_rowid (transactions_seq db) (map t_id (transactions db)))"
proof (cases "in_int64 (tx_provider_user_id tx) \<and> in_int64 (tx_recipient_user_id tx)")
  case False
  then show ?thesis using create_transaction_overflow_ids [of tx db] failure by auto
next
  case ids: True
  show ?thesis
  proof (cases "select_user db (tx_provider_user_id tx)")
    case None
    then show ?thesis using create_transaction_not_found [of tx db] ids failure by simp
  next
    case A: (Some A)
    show ?thesis
    proof (cases "select_user db (tx_recipient_user_id tx)")
      case None
      then show ?thesis using create_transaction_not_found [of tx db] ids failure by simp
    next
      case B: (Some B)
      show ?thesis
      proof (cases "number_value (u_minutes_balance B) < tx_minutes tx")
        case True
        then show ?thesis
          using create_transaction_insufficient [OF _ _ A B] ids failure by simp
      next
        case enough: False
        show ?thesis
        proof (cases "in_int64 (tx_minutes tx)")
          case False
          then show ?thesis
            using create_transaction_overflow_minutes [OF _ _ A B] ids enough failure by simp
        next
          case m: True
          show ?thesis
          proof (cases "in_int64 (new_rowid (transactions_seq db) (map t_id (transactions db)))")
            case False
            then show ?thesis
              using create_transaction_full [OF _ _ A B] ids enough m failure by simp
          next
            case True
            then show ?thesis using success [OF _ _ A B] ids enough m by simp
          qed
        qed
      qed
    qed
  qed
qed

lemma create_transaction_Inr:
  assumes "create_transaction db tx = (Inr t, db')"
  obtains A B where "in_int64 (tx_provider_user_id tx)"
      and "in_int64 (tx_recipient_user_id tx)"
      and "select_user db (tx_provider_user_id tx) = Some A"
      and "select_user db (tx_recipient_user_id tx) = Some B"
      and "tx_minutes tx \<le> number_value (u_minutes_balance B)"
      and "in_int64 (tx_minutes tx)"
      and "in_int64 (new_rowid (transactions_seq db) (map t_id (transactions db)))"
proof (cases rule: create_transaction_cases [of db tx])
  case (failure e)
  with assms show ?thesis by simp
next
  case (success A B)
  then show ?thesis by (rule that)
qed

lemma select_user_transfer:
  "select_user (db\<lparr>users := update_rows g j (update_rows f i (users db)), transactions := ts,
                  transactions_seq := n\<rparr>) k =
   find (\<lambda>u. u_id u = k) (update_rows g j (update_rows f i (users db)))"
  by (simp add: select_user_def)

subsection \<open>The rows SQLite can hold: an invariant\<close>

lemma users_ok_empty: "users_ok empty_database"
  by (simp add: users_ok_def empty_database_def)

lemma users_ok_update:
  assumes "users_ok db" and "\<And>u. u_id (f u) = u_id u"
    and "\<And>u. stored (u_minutes_balance (f u))"
  shows "users_ok (db\<lparr>users := update_rows f i (users db)\<rparr>)"
proof -
  have "list_all (\<lambda>u. in_int64 (u_id u) \<and> stored (u_minutes_balance u))
          (update_rows f i (users db))"
    using assms by (intro list_all_update_rows) (auto simp: users_ok_def)
  then show ?thesis
    using assms(1,2) by (simp add: users_ok_def map_u_id_update_rows)
qed

lemma users_ok_create_transaction:
  assumes "users_ok db"
  shows "users_ok (snd (create_transaction db tx))"
proof (cases rule: create_transaction_cases [of db tx])
  case (failure e)
  with assms show ?thesis by simp
next
  case (success A B)
  let ?f = "\<lambda>u. u\<lparr>u_minutes_balance :=
                     int_affinity (sql_add (u_minutes_balance u) (tx_minutes tx))\<rparr>"
  let ?g = "\<lambda>u. u\<lparr>u_minutes_balance :=
                     int_affinity (sql_sub (u_minutes_balance u) (tx_minutes tx))\<rparr>"
  have 1: "users_ok (db\<lparr>users := update_rows ?f (tx_provider_user_id tx) (users db)\<rparr>)"
    using assms by (rule users_ok_update) (simp_all add: stored_sql_add)
  have "users_ok (db\<lparr>users := update_rows ?f (tx_provider_user_id tx) (users db)\<rparr>
                    \<lparr>users := update_rows ?g (tx_recipient_user_id tx)
                       (users (db\<lparr>users := update_rows ?f (tx_provider_user_id tx) (users db)\<rparr>))\<rparr>)"
    using 1 by (rule users_ok_update) (simp_all add: stored_sql_sub)
  then show ?thesis
    using create_transaction_success [OF success(1-6) refl success(7)]
    by (simp add: users_ok_def)
qed

lemma users_ok_handle: "users_ok db \<Longrightarrow> users_ok (handle req db)"
proof (cases req)
  case (Post_users user)
  assume "users_ok db"
  then show ?thesis
    using new_rowid_fresh [of "users_seq db" "map u_id (users db)"]
    by (auto simp: Post_users create_user_def get_db_def insert_user_def commit_def Let_def
        users_ok_def bind_def)
next
  case (Put_users_id i user)
  assume ok: "users_ok db"
  show ?thesis
  proof (cases "bind [user_minutes_balance user, i]")
    case False
    then show ?thesis using ok by (simp add: Put_users_id update_user_def get_db_def Let_def)
  next
    case True
    have "users_ok (db\<lparr>users := update_rows
             (\<lambda>u. u\<lparr>u_name := user_name user,
                     u_minutes_balance := Integer (user_minutes_balance user)\<rparr>) i (users db)\<rparr>)"
      using ok by (rule users_ok_update) (use True in \<open>simp_all add: bind_def\<close>)
    then show ?thesis
      using True
      by (simp add: Put_users_id update_user_def get_db_def Let_def update_users_def commit_def
          users_ok_def)
  qed
next
  case (Delete_users_id i)
  assume "users_ok db"
  then show ?thesis
    by (auto simp: Delete_users_id delete_user_def get_db_def Let_def delete_users_def
        commit_def users_ok_def distinct_map_filter list_all_iff)
next
  case (Post_transactions tx)
  assume "users_ok db"
  then show ?thesis by (simp add: Post_transactions users_ok_create_transaction)
qed (auto simp: init_db_def list_users_def get_user_def create_service_def list_services_def
      get_db_def insert_service_def commit_def Let_def users_ok_def
      split: option.splits sum.splits)

section \<open>Properties of the transfer\<close>

text \<open>
  C1 (as amended). For every provider \<open>A\<close> and recipient \<open>B\<close> that exist, with
  integer balances \<open>a\<close> and \<open>b\<close>, and every amount \<open>m\<close> inside the 64-bit range
  with \<open>m \<le> b\<close>, while the transactions table can still give a row id,
  \<open>create_transaction\<close> succeeds, the transaction log afterwards is the old log
  followed by exactly one row for \<open>(A, B, m)\<close>, and the call returns the request with
  the id of that row, an id no earlier row has; and when \<open>A\<close> and \<open>B\<close> are different
  accounts and \<open>a + m\<close> and \<open>b - m\<close> are inside the 64-bit range, \<open>A\<close> holds
  \<open>a + m\<close> and \<open>B\<close> holds \<open>b - m\<close> afterwards.
\<close>

theorem create_transaction_transfers:
  assumes "users_ok db"
    and "select_user db (tx_provider_user_id tx) = Some A"
    and "select_user db (tx_recipient_user_id tx) = Some B"
    and "u_minutes_balance A = Integer a"
    and "u_minutes_balance B = Integer b"
    and "tx_minutes tx \<le> b"
    and "in_int64 (tx_minutes tx)"
    and "in_int64 (new_rowid (transactions_seq db) (map t_id (transactions db)))"
  shows "fst (create_transaction db tx) =
           Inr (tx\<lparr>tx_id := Some (new_rowid (transactions_seq db) (map t_id (transactions db)))\<rparr>) \<and>
         transactions (snd (create_transaction db tx)) =
           transactions db @
             [row_of_tx (new_rowid (transactions_seq db) (map t_id (transactions db))) tx] \<and>
         new_rowid (transactions_seq db) (map t_id (transactions db))
           \<notin> t_id ` set (transactions db) \<and>
         (tx_provider_user_id tx \<noteq> tx_recipient_user_id tx \<and>
          in_int64 (a + tx_minutes tx) \<and> in_int64 (b - tx_minutes tx) \<longrightarrow>
            select_user (snd (create_transaction db tx)) (tx_provider_user_id tx) =
              Some (A\<lparr>u_minutes_balance := Integer (a + tx_minutes tx)\<rparr>) \<and>
            select_user (snd (create_transaction db tx)) (tx_recipient_user_id tx) =
              Some (B\<lparr>u_minutes_balance := Integer (b - tx_minutes tx)\<rparr>))"
proof -
  have ids: "in_int64 (tx_provider_user_id tx)" "in_int64 (tx_recipient_user_id tx)"
    using users_ok_select(1) [OF assms(1)] assms(2,3) by blast+
  have enough: "tx_minutes tx \<le> number_value (u_minutes_balance B)"
    using assms(5,6) by simp
  note ct = create_transaction_success [OF ids assms(2,3) enough assms(7) refl assms(8)]
  have fresh: "new_rowid (transactions_seq db) (map t_id (transactions db))
                 \<notin> t_id ` set (transactions db)"
    using new_rowid_fresh [of "transactions_seq db" "map t_id (transactions db)"] by simp
  have A: "find (\<lambda>u. u_id u = tx_provider_user_id tx) (users db) = Some A"
    and B: "find (\<lambda>u. u_id u = tx_recipient_user_id tx) (users db) = Some B"
    using assms(2,3) by (simp_all add: select_user_def)
  show ?thesis
    using fresh assms(4,5)
    by (simp add: ct select_user_transfer find_update_rows A B)
qed

text \<open>The scenario of the specification: Bob pays Alice 30 minutes.\<close>

theorem create_transaction_transfers_witness:
  "users_ok scenario_db \<and>
   select_user scenario_db 1 =
     Some \<lparr>u_id = 1, u_name = ''Alice'', u_minutes_balance = Integer 0\<rparr> \<and>
   select_user scenario_db 2 =
     Some \<lparr>u_id = 2, u_name = ''Bob'', u_minutes_balance = Integer 100\<rparr> \<and>
   fst (create_transaction scenario_db (transfer_req 1 2 30)) =
     Inr ((transfer_req 1 2 30)\<lparr>tx_id := Some 1\<rparr>) \<and>
   select_user (snd (create_transaction scenario_db (transfer_req 1 2 30))) 1 =
     Some \<lparr>u_id = 1, u_name = ''Alice'', u_minutes_balance = Integer 30\<rparr> \<and>
   select_user (snd (create_transaction scenario_db (transfer_req 1 2 30))) 2 =
     Some \<lparr>u_id = 2, u_name = ''Bob'', u_minutes_balance = Integer 70\<rparr> \<and>
   transactions (snd (create_transaction scenario_db (transfer_req 1 2 30))) =
     [\<lparr>t_id = 1, t_provider_user_id = 1, t_recipient_user_id = 2, t_minutes = 30,
       t_description = None\<rparr>]"
  using create_transaction_transfers [of scenario_db "transfer_req 1 2 30"
      "\<lparr>u_id = 1, u_name = ''Alice'', u_minutes_balance = Integer 0\<rparr>"
      "\<lparr>u_id = 2, u_name = ''Bob'', u_minutes_balance = Integer 100\<rparr>" 0 100]
  by (simp add: scenario_db_def transfer_req_def select_user_def new_rowid_def row_of_tx_def
      users_ok_def in_int64_def)

text \<open>
  C1 as stated fails in two ways. When provider and recipient are the same account
  (Bob, holding 100, transfers 30 to himself) the call succeeds and the balance stays
  100, neither \<open>100 + 30\<close> nor \<open>100 - 30\<close>. And when \<open>a + m\<close> leaves the 64-bit
  range (Alice holds \<open>2^63 - 1\<close>, Bob pays her 3) the call succeeds and Alice's balance
  becomes the \<open>REAL\<close> \<open>2^63\<close>, not \<open>a + 3\<close>.
\<close>

theorem balance_not_a_plus_m:
  "select_user scenario_db 2 =
     Some \<lparr>u_id = 2, u_name = ''Bob'', u_minutes_balance = Integer 100\<rparr> \<and>
   fst (create_transaction scenario_db (transfer_req 2 2 30)) =
     Inr ((transfer_req 2 2 30)\<lparr>tx_id := Some 1\<rparr>) \<and>
   select_user (snd (create_transaction scenario_db (transfer_req 2 2 30))) 2 =
     Some \<lparr>u_id = 2, u_name = ''Bob'', u_minutes_balance = Integer 100\<rparr> \<and>
   (100::int) \<noteq> 100 + 30 \<and> (100::int) \<noteq> 100 - 30 \<and>
   select_user rich_db 1 =
     Some \<lparr>u_id = 1, u_name = ''Alice'', u_minutes_balance = Integer 9223372036854775807\<rparr> \<and>
   select_user rich_db 2 =
     Some \<lparr>u_id = 2, u_name = ''Bob'', u_minutes_balance = Integer 100\<rparr> \<and>
   fst (create_transaction rich_db (transfer_req 1 2 3)) =
     Inr ((transfer_req 1 2 3)\<lparr>tx_id := Some 1\<rparr>) \<and>
   select_user (snd (create_transaction rich_db (transfer_req 1 2 3))) 1 =
     Some \<lparr>u_id = 1, u_name = ''Alice'', u_minutes_balance = Real 9223372036854775808\<rparr> \<and>
   (9223372036854775808::int) \<noteq> 9223372036854775807 + 3"
  by (simp add: eval_defs)



text \<open>
  C3 (as amended). When the provider id or the recipient id matches no row of
  \<open>users\<close>, \<open>create_transaction\<close> fails and the database is unchanged. The failure
  is the HTTP 404 error when both ids are inside the 64-bit range; with an id outside
  it the lookup cannot bind the id and the failure is \<open>OverflowError\<close>.
\<close>

theorem create_transaction_unknown_account:
  assumes "select_user db (tx_provider_user_id tx) = None \<or>
           select_user db (tx_recipient_user_id tx) = None"
  shows "(\<exists>e. create_transaction db tx = (Inl e, db)) \<and>
         (in_int64 (tx_provider_user_id tx) \<and> in_int64 (tx_recipient_user_id tx) \<longrightarrow>
            create_transaction db tx =
              (Inl (HTTPException 404 ''Invalid provider or recipient''), db)) \<and>
         (\<not> (in_int64 (tx_provider_user_id tx) \<and> in_int64 (tx_recipient_user_id tx)) \<longrightarrow>
            create_transaction db tx = (Inl OverflowError, db))"
proof (cases "in_int64 (tx_provider_user_id tx) \<and> in_int64 (tx_recipient_user_id tx)")
  case True
  then show ?thesis using create_transaction_not_found [OF _ _ assms] by simp
next
  case False
  then show ?thesis using create_transaction_overflow_ids [of tx db] by auto
qed

text \<open>Account 99 does not exist, as provider or as recipient; neither does \<open>2^63\<close>.\<close>

theorem create_transaction_unknown_account_witness:
  "select_user scenario_db 99 = None \<and>
   create_transaction scenario_db (transfer_req 99 2 10) =
     (Inl (HTTPException 404 ''Invalid provider or recipient''), scenario_db) \<and>
   create_transaction scenario_db (transfer_req 2 99 10) =
     (Inl (HTTPException 404 ''Invalid provider or recipient''), scenario_db) \<and>
   create_transaction scenario_db (transfer_req 2 9223372036854775808 10) =
     (Inl OverflowError, scenario_db)"
  using create_transaction_unknown_account [of scenario_db "transfer_req 99 2 10"] create_transaction_unknown_account [of scenario_db "transfer_req 2 99 10"]
    create_transaction_unknown_account [of scenario_db "transfer_req 2 9223372036854775808 10"]
  by (simp add: scenario_db_def transfer_req_def select_user_def in_int64_def)

text \<open>
  C3 as stated fails for an id sqlite3 cannot bind: no account has the id \<open>2^63\<close>, and
  the call fails with \<open>OverflowError\<close>, not with the 404 error.
\<close>

theorem unknown_id_overflow:
  "select_user scenario_db 9223372036854775808 = None \<and>
   create_transaction scenario_db (transfer_req 9223372036854775808 2 10) =
     (Inl OverflowError, scenario_db) \<and>
   OverflowError \<noteq> HTTPException 404 ''Invalid provider or recipient''"
  by (simp add: eval_defs)



text \<open>
  C5 (as amended). Two calls of \<open>create_transaction\<close> in a row with the same
  arguments (minutes inside the 64-bit range, integer balances), each meeting the
  preconditions in the database it runs on, while the transactions table can still give
  two row ids, both succeed and append two rows with different ids (nothing is
  deduplicated); and when provider and recipient are different accounts and
  \<open>a + 2 * minutes\<close> and \<open>b - 2 * minutes\<close> are inside the 64-bit range, the provider
  ends with \<open>2 * minutes\<close> more and the recipient with \<open>2 * minutes\<close> less.
\<close>

theorem create_transaction_twice:
  assumes ok: "users_ok db"
    and A: "select_user db (tx_provider_user_id tx) = Some A"
    and B: "select_user db (tx_recipient_user_id tx) = Some B"
    and balA: "u_minutes_balance A = Integer a"
    and balB: "u_minutes_balance B = Integer b"
    and m1: "tx_minutes tx \<le> b"
    and m64: "in_int64 (tx_minutes tx)"
    and db1: "db1 = snd (create_transaction db tx)"
    and B1: "select_user db1 (tx_recipient_user_id tx) = Some B1"
    and m2: "tx_minutes tx \<le> number_value (u_minutes_balance B1)"
    and room: "in_int64 (new_rowid (transactions_seq db) (map t_id (transactions db)) + 1)"
  shows "\<exists>n1 n2 db2.
           create_transaction db tx = (Inr (tx\<lparr>tx_id := Some n1\<rparr>), db1) \<and>
           create_transaction db1 tx = (Inr (tx\<lparr>tx_id := Some n2\<rparr>), db2) \<and>
           n1 \<noteq> n2 \<and>
           transactions db2 = transactions db @ [row_of_tx n1 tx, row_of_tx n2 tx] \<and>
           (tx_provider_user_id tx \<noteq> tx_recipient_user_id tx \<and>
            in_int64 (a + 2 * tx_minutes tx) \<and> in_int64 (b - 2 * tx_minutes tx) \<longrightarrow>
              select_user db2 (tx_provider_user_id tx) =
                Some (A\<lparr>u_minutes_balance := Integer (a + 2 * tx_minutes tx)\<rparr>) \<and>
              select_user db2 (tx_recipient_user_id tx) =
                Some (B\<lparr>u_minutes_balance := Integer (b - 2 * tx_minutes tx)\<rparr>))"
proof -
  let ?p = "tx_provider_user_id tx" and ?r = "tx_recipient_user_id tx" and ?m = "tx_minutes tx"
  let ?f = "\<lambda>u. u\<lparr>u_minutes_balance := int_affinity (sql_add (u_minutes_balance u) ?m)\<rparr>"
  let ?g = "\<lambda>u. u\<lparr>u_minutes_balance := int_affinity (sql_sub (u_minutes_balance u) ?m)\<rparr>"
  define n1 where "n1 = new_rowid (transactions_seq db) (map t_id (transactions db))"
  have ids: "in_int64 ?p" "in_int64 ?r"
    using users_ok_select(1) [OF ok] A B by blast+
  have a64: "in_int64 a" and b64: "in_int64 b"
    using users_ok_select(2) [OF ok A] users_ok_select(2) [OF ok B] balA balB by simp_all
  have n1_pos: "0 < n1" unfolding n1_def by (rule new_rowid_pos)
  have room1: "in_int64 n1" and room2: "in_int64 (n1 + 1)"
    using room n1_pos by (simp_all add: n1_def [symmetric] in_int64_def)
  have enough: "?m \<le> number_value (u_minutes_balance B)"
    using balB m1 by simp
  have findA: "find (\<lambda>u. u_id u = ?p) (users db) = Some A"
    and findB: "find (\<lambda>u. u_id u = ?r) (users db) = Some B"
    using A B by (simp_all add: select_user_def)
  note s1 = create_transaction_success [OF ids A B enough m64 n1_def room1]
  have ct1: "create_transaction db tx = (Inr (tx\<lparr>tx_id := Some n1\<rparr>), db1)"
    unfolding db1 using s1 by simp
  have ts1: "transactions db1 = transactions db @ [row_of_tx n1 tx]"
    and seq1: "transactions_seq db1 = n1"
    unfolding db1 using s1 by simp_all
  have A1: "select_user db1 ?p = Some (if ?p = ?r then ?g (?f A) else ?f A)"
    unfolding db1 using s1
    by (simp add: select_user_transfer find_update_rows findA)
  define n2 where "n2 = new_rowid (transactions_seq db1) (map t_id (transactions db1))"
  define db2 where "db2 = snd (create_transaction db1 tx)"
  have n2: "n2 = n1 + 1"
    unfolding n2_def seq1 ts1 using new_rowid_snoc [OF n1_def] by (simp add: row_of_tx_def)
  have room2': "in_int64 n2" using room2 n2 by simp
  note s2 = create_transaction_success [OF ids A1 B1 m2 m64 n2_def room2']
  have ct2: "create_transaction db1 tx = (Inr (tx\<lparr>tx_id := Some n2\<rparr>), db2)"
    unfolding db2_def using s2 by simp
  have ts2: "transactions db2 = transactions db @ [row_of_tx n1 tx, row_of_tx n2 tx]"
    unfolding db2_def using s2 ts1 by simp
  have bal: "select_user db2 ?p = Some (A\<lparr>u_minutes_balance := Integer (a + 2 * ?m)\<rparr>) \<and>
             select_user db2 ?r = Some (B\<lparr>u_minutes_balance := Integer (b - 2 * ?m)\<rparr>)"
    if ne: "?p \<noteq> ?r" and a2: "in_int64 (a + 2 * ?m)" and b2: "in_int64 (b - 2 * ?m)"
  proof -
    have a1: "in_int64 (a + ?m)" and b1: "in_int64 (b - ?m)"
      using a64 b64 a2 b2 by (simp_all add: in_int64_def)
    have A1': "select_user db1 ?p = Some (A\<lparr>u_minutes_balance := Integer (a + ?m)\<rparr>)"
      using A1 ne a1 balA by simp
    have B1': "select_user db1 ?r = Some (B\<lparr>u_minutes_balance := Integer (b - ?m)\<rparr>)"
      unfolding db1 using s1 ne b1 balB
      by (simp add: select_user_transfer find_update_rows findB)
    have findA1: "find (\<lambda>u. u_id u = ?p) (users db1) =
                    Some (A\<lparr>u_minutes_balance := Integer (a + ?m)\<rparr>)"
      and findB1: "find (\<lambda>u. u_id u = ?r) (users db1) =
                    Some (B\<lparr>u_minutes_balance := Integer (b - ?m)\<rparr>)"
      using A1' B1' by (simp_all add: select_user_def)
    have a2': "in_int64 (a + ?m + ?m)" and b2': "in_int64 (b - ?m - ?m)"
      using a2 b2 by (simp_all add: algebra_simps)
    show ?thesis
      unfolding db2_def using s2 ne a2' b2'
      by (simp add: select_user_transfer find_update_rows findA1 findB1)
  qed
  have "n1 \<noteq> n2" using n2 by simp
  with ct1 ct2 ts2 bal show ?thesis by blast
qed

text \<open>Bob pays Alice 30 minutes twice: Alice ends with 60, Bob with 40.\<close>

theorem create_transaction_twice_witness:
  "users_ok scenario_db \<and>
   select_user scenario_db 1 =
     Some \<lparr>u_id = 1, u_name = ''Alice'', u_minutes_balance = Integer 0\<rparr> \<and>
   select_user scenario_db 2 =
     Some \<lparr>u_id = 2, u_name = ''Bob'', u_minutes_balance = Integer 100\<rparr> \<and>
   select_user (snd (create_transaction scenario_db (transfer_req 1 2 30))) 2 =
     Some \<lparr>u_id = 2, u_name = ''Bob'', u_minutes_balance = Integer 70\<rparr> \<and>
   (\<exists>n1 n2 db2.
      create_transaction scenario_db (transfer_req 1 2 30) =
        (Inr ((transfer_req 1 2 30)\<lparr>tx_id := Some n1\<rparr>),
         snd (create_transaction scenario_db (transfer_req 1 2 30))) \<and>
      create_transaction (snd (create_transaction scenario_db (transfer_req 1 2 30)))
          (transfer_req 1 2 30) =
        (Inr ((transfer_req 1 2 30)\<lparr>tx_id := Some n2\<rparr>), db2) \<and>
      n1 \<noteq> n2 \<and>
      transactions db2 =
        transactions scenario_db @
          [row_of_tx n1 (transfer_req 1 2 30), row_of_tx n2 (transfer_req 1 2 30)] \<and>
      select_user db2 1 =
        Some \<lparr>u_id = 1, u_name = ''Alice'', u_minutes_balance = Integer 60\<rparr> \<and>
      select_user db2 2 =
        Some \<lparr>u_id = 2, u_name = ''Bob'', u_minutes_balance = Integer 40\<rparr>)"
proof -
  let ?tx = "transfer_req 1 2 30"
  let ?db1 = "snd (create_transaction scenario_db ?tx)"
  have ok: "users_ok scenario_db"
    by (simp add: users_ok_def scenario_db_def in_int64_def)
  have A: "select_user scenario_db (tx_provider_user_id ?tx) =
             Some \<lparr>u_id = 1, u_name = ''Alice'', u_minutes_balance = Integer 0\<rparr>"
    and B: "select_user scenario_db (tx_recipient_user_id ?tx) =
             Some \<lparr>u_id = 2, u_name = ''Bob'', u_minutes_balance = Integer 100\<rparr>"
    by (simp_all add: scenario_db_def transfer_req_def select_user_def)
  have B1: "select_user ?db1 (tx_recipient_user_id ?tx) =
             Some \<lparr>u_id = 2, u_name = ''Bob'', u_minutes_balance = Integer 70\<rparr>"
    by (simp add: eval_defs)
  have room: "in_int64 (new_rowid (transactions_seq scenario_db)
                 (map t_id (transactions scenario_db)) + 1)"
    by (simp add: scenario_db_def new_rowid_def in_int64_def)
  from create_transaction_twice [OF ok A B _ _ _ _ refl B1 _ room, of 0 100] ok A B B1 show ?thesis
    by (simp add: transfer_req_def in_int64_def)
qed

text \<open>
  C5 as stated fails in two ways. Bob transfers 30 to himself twice: both calls succeed
  (ids 1 and 2) and his balance is still 100. Bob pays 30 twice to Alice, who holds
  \<open>2^63 - 1\<close>: both calls succeed and Alice ends with the \<open>REAL\<close> \<open>2^63\<close>, a gain
  of 1 and not of 60.
\<close>

theorem twice_balance_not_doubled:
  "fst (create_transaction scenario_db (transfer_req 2 2 30)) =
     Inr ((transfer_req 2 2 30)\<lparr>tx_id := Some 1\<rparr>) \<and>
   fst (create_transaction (snd (create_transaction scenario_db (transfer_req 2 2 30)))
          (transfer_req 2 2 30)) =
     Inr ((transfer_req 2 2 30)\<lparr>tx_id := Some 2\<rparr>) \<and>
   select_user
     (snd (create_transaction (snd (create_transaction scenario_db (transfer_req 2 2 30)))
        (transfer_req 2 2 30))) 2 =
     Some \<lparr>u_id = 2, u_name = ''Bob'', u_minutes_balance = Integer 100\<rparr> \<and>
   (100::int) \<noteq> 100 + 2 * 30 \<and> (100::int) \<noteq> 100 - 2 * 30 \<and>
   select_user rich_db 1 =
     Some \<lparr>u_id = 1, u_name = ''Alice'', u_minutes_balance = Integer 9223372036854775807\<rparr> \<and>
   fst (create_transaction rich_db (transfer_req 1 2 30)) =
     Inr ((transfer_req 1 2 30)\<lparr>tx_id := Some 1\<rparr>) \<and>
   fst (create_transaction (snd (create_transaction rich_db (transfer_req 1 2 30)))
          (transfer_req 1 2 30)) =
     Inr ((transfer_req 1 2 30)\<lparr>tx_id := Some 2\<rparr>) \<and>
   select_user
     (snd (create_transaction (snd (create_transaction rich_db (transfer_req 1 2 30)))
        (transfer_req 1 2 30))) 1 =
     Some \<lparr>u_id = 1, u_name = ''Alice'', u_minutes_balance = Real 9223372036854775808\<rparr> \<and>
   (9223372036854775808::int) \<noteq> 9223372036854775807 + 2 * 30"
  by (simp add: eval_defs)

text \<open>
  C6 (as amended). \<open>create_transaction\<close> asks for nothing beyond two existing
  accounts and a recipient balance of at least \<open>minutes\<close>, as long as \<open>minutes\<close> is
  inside the 64-bit range and the transactions table can still give a row id: with
  these it succeeds, whatever the sign of \<open>minutes\<close> and whether or not provider and
  recipient differ.
\<close>

theorem create_transaction_permissive:
  assumes "users_ok db"
    and "select_user db (tx_provider_user_id tx) = Some A"
    and "select_user db (tx_recipient_user_id tx) = Some B"
    and "tx_minutes tx \<le> number_value (u_minutes_balance B)"
    and "in_int64 (tx_minutes tx)"
    and "in_int64 (new_rowid (transactions_seq db) (map t_id (transactions db)))"
  shows "fst (create_transaction db tx) =
           Inr (tx\<lparr>tx_id := Some (new_rowid (transactions_seq db) (map t_id (transactions db)))\<rparr>)"
proof -
  have ids: "in_int64 (tx_provider_user_id tx)" "in_int64 (tx_recipient_user_id tx)"
    using users_ok_select(1) [OF assms(1)] assms(2,3) by blast+
  from create_transaction_success [OF ids assms(2-5) refl assms(6)] show ?thesis by simp
qed

text \<open>Zero minutes, negative minutes, and provider equal to recipient all succeed.\<close>

theorem create_transaction_permissive_witness:
  "users_ok scenario_db \<and>
   select_user scenario_db 1 =
     Some \<lparr>u_id = 1, u_name = ''Alice'', u_minutes_balance = Integer 0\<rparr> \<and>
   select_user scenario_db 2 =
     Some \<lparr>u_id = 2, u_name = ''Bob'', u_minutes_balance = Integer 100\<rparr> \<and>
   fst (create_transaction scenario_db (transfer_req 1 2 0)) =
     Inr ((transfer_req 1 2 0)\<lparr>tx_id := Some 1\<rparr>) \<and>
   fst (create_transaction scenario_db (transfer_req 2 1 (- 5))) =
     Inr ((transfer_req 2 1 (- 5))\<lparr>tx_id := Some 1\<rparr>) \<and>
   fst (create_transaction scenario_db (transfer_req 2 2 30)) =
     Inr ((transfer_req 2 2 30)\<lparr>tx_id := Some 1\<rparr>)"
  using
    create_transaction_permissive [of scenario_db "transfer_req 1 2 0"
      "\<lparr>u_id = 1, u_name = ''Alice'', u_minutes_balance = Integer 0\<rparr>"
      "\<lparr>u_id = 2, u_name = ''Bob'', u_minutes_balance = Integer 100\<rparr>"]
    create_transaction_permissive [of scenario_db "transfer_req 2 1 (- 5)"
      "\<lparr>u_id = 2, u_name = ''Bob'', u_minutes_balance = Integer 100\<rparr>"
      "\<lparr>u_id = 1, u_name = ''Alice'', u_minutes_balance = Integer 0\<rparr>"]
    create_transaction_permissive [of scenario_db "transfer_req 2 2 30"
      "\<lparr>u_id = 2, u_name = ''Bob'', u_minutes_balance = Integer 100\<rparr>"
      "\<lparr>u_id = 2, u_name = ''Bob'', u_minutes_balance = Integer 100\<rparr>"]
  by (simp add: scenario_db_def transfer_req_def select_user_def new_rowid_def users_ok_def
      in_int64_def)

text \<open>
  C6 as stated fails for minutes below the 64-bit range: with both accounts present
  and \<open>minutes = - 2^63 - 1\<close>, which is below Bob's balance of 100, the first UPDATE
  cannot bind the minutes and the call fails with \<open>OverflowError\<close>.
\<close>

theorem huge_negative_minutes_rejected:
  "select_user scenario_db 1 =
     Some \<lparr>u_id = 1, u_name = ''Alice'', u_minutes_balance = Integer 0\<rparr> \<and>
   select_user scenario_db 2 =
     Some \<lparr>u_id = 2, u_name = ''Bob'', u_minutes_balance = Integer 100\<rparr> \<and>
   (- 9223372036854775809::int) \<le> 100 \<and>
   create_transaction scenario_db (transfer_req 1 2 (- 9223372036854775809)) =
     (Inl OverflowError, scenario_db)"
  by (simp add: eval_defs)

text \<open>
  C7. Whatever the request (startup, any users or services route, or a transfer), the
  transaction log afterwards is the log before followed by new rows: none, or exactly
  the one row of a transfer that succeeded. So no existing row is changed or removed.
\<close>

theorem transactions_append_only:
  "\<exists>new. transactions (handle req db) = transactions db @ new \<and>
     (new = [] \<or>
      (\<exists>tx t. req = Post_transactions tx \<and> fst (create_transaction db tx) = Inr t \<and>
         new = [row_of_tx (new_rowid (transactions_seq db) (map t_id (transactions db))) tx]))"
proof (cases req)
  case (Post_transactions tx)
  show ?thesis
  proof (cases rule: create_transaction_cases [of db tx])
    case (failure e)
    then show ?thesis by (simp add: Post_transactions)
  next
    case (success A B)
    from create_transaction_success [OF success(1-6) refl success(7)] show ?thesis
      by (simp add: Post_transactions)
  qed
qed (simp_all add: init_db_def create_user_def list_users_def get_user_def update_user_def
      delete_user_def create_service_def list_services_def get_db_def update_users_def
      delete_users_def insert_user_def insert_service_def commit_def Let_def
      split: option.splits sum.splits)

text \<open>A transfer appends its row; deleting a user named in it leaves the row as it is.\<close>

theorem transactions_append_only_witness:
  "transactions (handle (Post_transactions (transfer_req 1 2 30)) scenario_db) =
     transactions scenario_db @ [row_of_tx 1 (transfer_req 1 2 30)] \<and>
   transactions (handle (Delete_users_id 1)
       (handle (Post_transactions (transfer_req 1 2 30)) scenario_db)) =
     [row_of_tx 1 (transfer_req 1 2 30)]"
  using transactions_append_only [of "Post_transactions (transfer_req 1 2 30)" scenario_db]
    transactions_append_only [of "Delete_users_id 1" "handle (Post_transactions (transfer_req 1 2 30)) scenario_db"]
  by (simp add: eval_defs delete_user_def delete_users_def)

text \<open>
  C8 (as amended). A transfer from an existing account to itself, with an integer
  balance \<open>a\<close> of at least \<open>minutes\<close>, with \<open>minutes\<close> and \<open>a + minutes\<close> inside the
  64-bit range, while the transactions table can still give a row id, succeeds, leaves
  the \<open>users\<close> table as it was, and appends one row naming the account as provider
  and as recipient.
\<close>

theorem create_transaction_self_transfer:
  assumes "users_ok db"
    and "select_user db (tx_provider_user_id tx) = Some A"
    and "tx_recipient_user_id tx = tx_provider_user_id tx"
    and "u_minutes_balance A = Integer a"
    and "tx_minutes tx \<le> a"
    and "in_int64 (tx_minutes tx)"
    and "in_int64 (a + tx_minutes tx)"
    and "in_int64 (new_rowid (transactions_seq db) (map t_id (transactions db)))"
  shows "fst (create_transaction db tx) =
           Inr (tx\<lparr>tx_id := Some (new_rowid (transactions_seq db) (map t_id (transactions db)))\<rparr>) \<and>
         users (snd (create_transaction db tx)) = users db \<and>
         transactions (snd (create_transaction db tx)) =
           transactions db @
             [\<lparr>t_id = new_rowid (transactions_seq db) (map t_id (transactions db)),
               t_provider_user_id = tx_provider_user_id tx,
               t_recipient_user_id = tx_provider_user_id tx,
               t_minutes = tx_minutes tx, t_description = tx_description tx\<rparr>]"
proof -
  let ?p = "tx_provider_user_id tx" and ?m = "tx_minutes tx"
  let ?f = "\<lambda>u. u\<lparr>u_minutes_balance := int_affinity (sql_add (u_minutes_balance u) ?m)\<rparr>"
  let ?g = "\<lambda>u. u\<lparr>u_minutes_balance := int_affinity (sql_sub (u_minutes_balance u) ?m)\<rparr>"
  have id: "in_int64 ?p" and a64: "in_int64 a"
    using users_ok_select(1,2) [OF assms(1,2)] assms(4) by simp_all
  have B: "select_user db (tx_recipient_user_id tx) = Some A"
    using assms(2,3) by simp
  have enough: "?m \<le> number_value (u_minutes_balance A)"
    using assms(4,5) by simp
  have d: "distinct (map u_id (users db))"
    using assms(1) by (simp add: users_ok_def)
  have findA: "find (\<lambda>u. u_id u = ?p) (users db) = Some A"
    using assms(2) by (simp add: select_user_def)
  have "update_rows ?g ?p (update_rows ?f ?p (users db)) =
          update_rows (\<lambda>u. ?g (?f u)) ?p (users db)"
    by (simp add: update_rows_def)
  also have "\<dots> = users db"
    using d findA
  proof (rule update_rows_found)
    show "?g (?f A) = A" using assms(4,7) a64 by simp
  qed
  finally have inv: "update_rows ?g ?p (update_rows ?f ?p (users db)) = users db" .
  from create_transaction_success [OF id _ assms(2) B enough assms(6) refl assms(8)] id inv
  show ?thesis
    by (simp add: assms(3) row_of_tx_def)
qed

text \<open>Bob transfers 30 minutes to himself.\<close>

theorem create_transaction_self_transfer_witness:
  "users_ok scenario_db \<and>
   select_user scenario_db 2 =
     Some \<lparr>u_id = 2, u_name = ''Bob'', u_minutes_balance = Integer 100\<rparr> \<and>
   fst (create_transaction scenario_db (transfer_req 2 2 30)) =
     Inr ((transfer_req 2 2 30)\<lparr>tx_id := Some 1\<rparr>) \<and>
   users (snd (create_transaction scenario_db (transfer_req 2 2 30))) = users scenario_db \<and>
   transactions (snd (create_transaction scenario_db (transfer_req 2 2 30))) =
     [\<lparr>t_id = 1, t_provider_user_id = 2, t_recipient_user_id = 2, t_minutes = 30,
       t_description = None\<rparr>]"
  using create_transaction_self_transfer [of scenario_db "transfer_req 2 2 30"
      "\<lparr>u_id = 2, u_name = ''Bob'', u_minutes_balance = Integer 100\<rparr>" 100]
  by (simp add: scenario_db_def transfer_req_def select_user_def new_rowid_def users_ok_def
      in_int64_def)

text \<open>
  C8 as stated fails when \<open>a + minutes\<close> leaves the 64-bit range: Alice, holding
  \<open>2^63 - 1\<close>, transfers 1 to herself. The call succeeds; the first UPDATE makes her
  balance the \<open>REAL\<close> \<open>2^63\<close>, and subtracting 1 from that double gives \<open>2^63\<close>
  again, so her balance has changed.
\<close>

theorem self_transfer_changes_balance:
  "select_user rich_db 1 =
     Some \<lparr>u_id = 1, u_name = ''Alice'', u_minutes_balance = Integer 9223372036854775807\<rparr> \<and>
   (1::int) \<le> 9223372036854775807 \<and>
   fst (create_transaction rich_db (transfer_req 1 1 1)) =
     Inr ((transfer_req 1 1 1)\<lparr>tx_id := Some 1\<rparr>) \<and>
   select_user (snd (create_transaction rich_db (transfer_req 1 1 1))) 1 =
     Some \<lparr>u_id = 1, u_name = ''Alice'', u_minutes_balance = Real 9223372036854775808\<rparr> \<and>
   users (snd (create_transaction rich_db (transfer_req 1 1 1))) \<noteq> users rich_db"
  by (simp add: eval_defs)

text \<open>
  C9 (as amended). A failing call of \<open>create_transaction\<close> leaves the sum of all
  balances as it was, and so does every call where provider and recipient hold integer
  balances \<open>a\<close> and \<open>b\<close> with \<open>a + minutes\<close> and \<open>b - minutes\<close> inside the 64-bit
  range. The hypothesis \<open>users_ok\<close> is what SQLite guarantees of the \<open>users\<close> table;
  every route preserves it (\<open>users_ok_handle\<close>).
\<close>

theorem create_transaction_preserves_total:
  assumes "users_ok db"
  shows "(\<forall>e. fst (create_transaction db tx) = Inl e \<longrightarrow>
            total_minutes (snd (create_transaction db tx)) = total_minutes db) \<and>
         (\<forall>A B a b.
            select_user db (tx_provider_user_id tx) = Some A \<and>
            select_user db (tx_recipient_user_id tx) = Some B \<and>
            u_minutes_balance A = Integer a \<and> u_minutes_balance B = Integer b \<and>
            in_int64 (a + tx_minutes tx) \<and> in_int64 (b - tx_minutes tx) \<longrightarrow>
            total_minutes (snd (create_transaction db tx)) = total_minutes db)"
proof (cases rule: create_transaction_cases [of db tx])
  case (failure e)
  then show ?thesis by simp
next
  case (success A B)
  let ?p = "tx_provider_user_id tx" and ?r = "tx_recipient_user_id tx" and ?m = "tx_minutes tx"
  let ?f = "\<lambda>u. u\<lparr>u_minutes_balance := int_affinity (sql_add (u_minutes_balance u) ?m)\<rparr>"
  let ?g = "\<lambda>u. u\<lparr>u_minutes_balance := int_affinity (sql_sub (u_minutes_balance u) ?m)\<rparr>"
  let ?rows1 = "update_rows ?f ?p (users db)"
  let ?val = "\<lambda>u. number_value (u_minutes_balance u)"
  note ct = create_transaction_success [OF success(1-6) refl success(7)]
  have d: "distinct (map u_id (users db))"
    using assms by (simp add: users_ok_def)
  have A: "find (\<lambda>u. u_id u = ?p) (users db) = Some A"
    and B: "find (\<lambda>u. u_id u = ?r) (users db) = Some B"
    using success by (simp_all add: select_user_def)
  have total: "total_minutes (snd (create_transaction db tx)) = total_minutes db"
    if balA: "u_minutes_balance A = Integer a" and balB: "u_minutes_balance B = Integer b"
      and a1: "in_int64 (a + ?m)" and b1: "in_int64 (b - ?m)" for a b
  proof -
    have a64: "in_int64 a"
      using users_ok_select(2) [OF assms success(3)] balA by simp
    have s1: "sum_list (map ?val ?rows1) = sum_list (map ?val (users db)) + ?m"
      using sum_update_rows [OF d A, of ?f] balA a1 by simp
    have d1: "distinct (map u_id ?rows1)"
      using d by (simp add: map_u_id_update_rows)
    have B1: "find (\<lambda>u. u_id u = ?r) ?rows1 = Some (if ?r = ?p then ?f B else B)"
      by (simp add: find_update_rows B)
    have "?val (?g (if ?r = ?p then ?f B else B)) = ?val (if ?r = ?p then ?f B else B) - ?m"
    proof (cases "?r = ?p")
      case True
      with A B have "B = A" by simp
      then show ?thesis using True balA a1 a64 by simp
    next
      case False
      then show ?thesis using balB b1 by simp
    qed
    then have s2: "sum_list (map ?val (update_rows ?g ?r ?rows1)) = sum_list (map ?val ?rows1) - ?m"
      using sum_update_rows [OF d1 B1, of ?g] by simp
    from ct s1 s2 show ?thesis
      by (simp add: total_minutes_def)
  qed
  show ?thesis
    using ct total success(3,4) by auto
qed

text \<open>A transfer, a refused transfer and a transfer to oneself in the scenario.\<close>

theorem create_transaction_preserves_total_witness:
  "users_ok scenario_db \<and>
   total_minutes scenario_db = 100 \<and>
   total_minutes (snd (create_transaction scenario_db (transfer_req 1 2 30))) = 100 \<and>
   total_minutes (snd (create_transaction scenario_db (transfer_req 1 2 200))) = 100 \<and>
   total_minutes (snd (create_transaction scenario_db (transfer_req 2 2 30))) = 100"
proof -
  have ok: "users_ok scenario_db"
    by (simp add: users_ok_def scenario_db_def in_int64_def)
  have t: "total_minutes scenario_db = 100"
    by (simp add: total_minutes_def scenario_db_def)
  have 1: "total_minutes (snd (create_transaction scenario_db (transfer_req 1 2 30))) =
             total_minutes scenario_db"
    using create_transaction_preserves_total [OF ok, of "transfer_req 1 2 30"]
    by (simp add: scenario_db_def transfer_req_def select_user_def in_int64_def)
  have 2: "total_minutes (snd (create_transaction scenario_db (transfer_req 1 2 200))) =
             total_minutes scenario_db"
    using create_transaction_preserves_total [OF ok, of "transfer_req 1 2 200"]
    by (simp add: eval_defs)
  have 3: "total_minutes (snd (create_transaction scenario_db (transfer_req 2 2 30))) =
             total_minutes scenario_db"
    using create_transaction_preserves_total [OF ok, of "transfer_req 2 2 30"]
    by (simp add: scenario_db_def transfer_req_def select_user_def in_int64_def)
  from ok t 1 2 3 show ?thesis by simp
qed

text \<open>
  C9 as stated fails when a balance leaves the 64-bit range: Alice holds \<open>2^63 - 1\<close>
  and Bob 100, a sum of \<open>2^63 + 99\<close>. Bob pays Alice 3: the call succeeds, Alice's
  balance becomes the \<open>REAL\<close> \<open>2^63\<close>, Bob's 97, and the sum is \<open>2^63 + 97\<close>.
\<close>

theorem total_not_preserved:
  "users_ok rich_db \<and>
   total_minutes rich_db = 9223372036854775907 \<and>
   fst (create_transaction rich_db (transfer_req 1 2 3)) =
     Inr ((transfer_req 1 2 3)\<lparr>tx_id := Some 1\<rparr>) \<and>
   total_minutes (snd (create_transaction rich_db (transfer_req 1 2 3))) = 9223372036854775905"
  by (simp add: eval_defs users_ok_def total_minutes_def)

text \<open>
  C10. After a successful \<open>create_transaction\<close>, the rows of \<open>users\<close> other than
  the provider's and the recipient's are the same rows in the same order, and the
  \<open>services\<close> table is unchanged.
\<close>

theorem create_transaction_frame:
  assumes "create_transaction db tx = (Inr t, db')"
  shows "filter (\<lambda>u. u_id u \<notin> {tx_provider_user_id tx, tx_recipient_user_id tx}) (users db') =
         filter (\<lambda>u. u_id u \<notin> {tx_provider_user_id tx, tx_recipient_user_id tx}) (users db) \<and>
         services db' = services db \<and> services_seq db' = services_seq db"
proof -
  from assms obtain A B
    where s: "in_int64 (tx_provider_user_id tx)" "in_int64 (tx_recipient_user_id tx)"
      "select_user db (tx_provider_user_id tx) = Some A"
      "select_user db (tx_recipient_user_id tx) = Some B"
      "tx_minutes tx \<le> number_value (u_minutes_balance B)"
      "in_int64 (tx_minutes tx)"
      "in_int64 (new_rowid (transactions_seq db) (map t_id (transactions db)))"
    by (rule create_transaction_Inr)
  from create_transaction_success [OF s(1-6) refl s(7)] assms
  have db': "db' = db\<lparr>users := update_rows
                  (\<lambda>u. u\<lparr>u_minutes_balance :=
                           int_affinity (sql_sub (u_minutes_balance u) (tx_minutes tx))\<rparr>)
                  (tx_recipient_user_id tx)
                  (update_rows
                     (\<lambda>u. u\<lparr>u_minutes_balance :=
                              int_affinity (sql_add (u_minutes_balance u) (tx_minutes tx))\<rparr>)
                     (tx_provider_user_id tx) (users db)),
         transactions := transactions db @
           [row_of_tx (new_rowid (transactions_seq db) (map t_id (transactions db))) tx],
         transactions_seq := new_rowid (transactions_seq db) (map t_id (transactions db))\<rparr>"
    by simp
  define S where "S = {tx_provider_user_id tx, tx_recipient_user_id tx}"
  have S: "tx_provider_user_id tx \<in> S" "tx_recipient_user_id tx \<in> S"
    by (simp_all add: S_def)
  have "filter (\<lambda>u. u_id u \<notin> S) (users db') = filter (\<lambda>u. u_id u \<notin> S) (users db)"
    by (simp add: db' filter_update_rows S)
  then show ?thesis
    by (simp add: S_def db')
qed

text \<open>Bob pays Alice; Carol's row and the one service stay as they were.\<close>

theorem create_transaction_frame_witness:
  "fst (create_transaction three_db (transfer_req 1 2 30)) =
     Inr ((transfer_req 1 2 30)\<lparr>tx_id := Some 1\<rparr>) \<and>
   filter (\<lambda>u. u_id u \<notin> {1, 2}) (users (snd (create_transaction three_db (transfer_req 1 2 30)))) =
     [\<lparr>u_id = 3, u_name = ''Carol'', u_minutes_balance = Integer 7\<rparr>] \<and>
   services (snd (create_transaction three_db (transfer_req 1 2 30))) = services three_db"
proof -
  have ct: "create_transaction three_db (transfer_req 1 2 30) =
          (Inr ((transfer_req 1 2 30)\<lparr>tx_id := Some 1\<rparr>),
           snd (create_transaction three_db (transfer_req 1 2 30)))"
    by (simp add: eval_defs)
  from create_transaction_frame [OF ct] show ?thesis
    by (simp add: eval_defs)
qed

end
